theory Spec2Isabelle
  imports Main
begin

section \<open>Values exchanged over HTTP\<close>

text \<open>
  The server in \<^verbatim>\<open>server.js\<close> is an Express application with three routes. A response
  is its status code and its body; a body is either the text that \<^verbatim>\<open>res.send\<close> writes or
  the value that \<^verbatim>\<open>res.json\<close> serialises.
\<close>

datatype json =
    JNull
  | JBool bool
  | JNumber int
  | JString string
  | JArray "json list"
  | JObject "(string \<times> json) list"

text \<open>
  An exception of the JavaScript runtime. The only one the handlers can raise is the
  \<^verbatim>\<open>TypeError\<close> of a property read or a call on a value that does not support it.
\<close>

datatype js_error = TypeError

text \<open>
  The third kind of body is the page that Express's default error handler writes when an
  exception escapes a handler; its text depends on the environment and is not modelled.
\<close>

datatype body = Text string | Json json | ErrorPage js_error

record response =
  status :: nat
  body :: body

text \<open>
  An element of the \<^verbatim>\<open>users\<close> array. The payload that login signs, and the payload that
  \<^verbatim>\<open>jwt.verify\<close> decodes from a token, are JSON values: the middleware receives whatever
  payload was signed under the key, whether login built it or not.
\<close>

record user =
  email :: string
  password :: string
  role :: string
  permissions :: "string list"

text \<open>
  A request, as far as the handlers read it: \<^verbatim>\<open>req.headers.authorization\<close>, the query
  string parameters, the fields of the JSON body (strings, as the documented schemas
  have them) and \<^verbatim>\<open>req.user\<close>, which the middleware sets.
\<close>

record request =
  headers_authorization :: "string option"
  req_query :: "string \<rightharpoonup> string"
  req_body :: "string \<rightharpoonup> string"
  req_user :: "json option"

text \<open>
  A middleware answers the request, calls \<^verbatim>\<open>next()\<close> on the request, or lets an
  exception escape.
\<close>

datatype outcome = Next request | Respond response | Throw js_error

section \<open>JavaScript and Express primitives\<close>

text \<open>
  Truthiness of a value that is \<^verbatim>\<open>undefined\<close> or a string: \<^verbatim>\<open>undefined\<close> and the empty
  string are falsy.
\<close>

definition truthy :: "string option \<Rightarrow> bool" where
  "truthy v = (case v of None \<Rightarrow> False | Some s \<Rightarrow> s \<noteq> [])"

text \<open>
  \<^verbatim>\<open>s.split(sep)\<close> for a separator of one character: one segment more than there are
  separators in \<^verbatim>\<open>s\<close>, so the empty string gives one empty segment.
\<close>

fun str_split :: "char \<Rightarrow> string \<Rightarrow> string list" where
  "str_split sep [] = [[]]"
| "str_split sep (c # cs) =
     (if c = sep then [] # str_split sep cs
      else (case str_split sep cs of
              [] \<Rightarrow> [[c]]
            | w # ws \<Rightarrow> (c # w) # ws))"

text \<open>Indexing an array: \<^verbatim>\<open>undefined\<close> beyond its length.\<close>

definition at_index :: "'a list \<Rightarrow> nat \<Rightarrow> 'a option" where
  "at_index xs i = (if i < length xs then Some (xs ! i) else None)"

text \<open>\<^verbatim>\<open>String(n)\<close> of a natural number, as template literals render it: decimal digits.\<close>

definition digit_char :: "nat \<Rightarrow> char" where
  "digit_char d = ''0123456789'' ! (d mod 10)"

fun String_of_nat :: "nat \<Rightarrow> string" where
  "String_of_nat n =
     (if n < 10 then [digit_char n] else String_of_nat (n div 10) @ [digit_char (n mod 10)])"

declare String_of_nat.simps [simp del]

text \<open>
  Express's \<^verbatim>\<open>res.sendStatus(code)\<close> sets the status and sends the registered message of
  the code as a text body (\<^verbatim>\<open>statuses.message[code] || String(code)\<close>). The table below
  holds the entries of the codes this server uses.
\<close>

definition status_message :: "nat \<rightharpoonup> string" where
  "status_message =
     [200 \<mapsto> ''OK'', 201 \<mapsto> ''Created'', 400 \<mapsto> ''Bad Request'',
      401 \<mapsto> ''Unauthorized'', 403 \<mapsto> ''Forbidden'']"

definition sendStatus :: "nat \<Rightarrow> response" where
  "sendStatus code =
     \<lparr>status = code,
      body = Text (case status_message code of Some m \<Rightarrow> m | None \<Rightarrow> String_of_nat code)\<rparr>"

text \<open>
  What Express answers when an exception escapes a handler and the application installs
  no error handler of its own (this one installs none): status 500 and the error page.
\<close>

definition uncaught :: "js_error \<Rightarrow> response" where
  "uncaught e = \<lparr>status = 500, body = ErrorPage e\<rparr>"

text \<open>
  \<^verbatim>\<open>user.permissions\<close>: reading a property of \<^verbatim>\<open>null\<close> throws; an object gives the value
  stored under the key (the last one, when a JSON text repeats a key) or \<^verbatim>\<open>undefined\<close>;
  strings, arrays, numbers and booleans have no such property.
\<close>

definition get_permissions :: "json \<Rightarrow> js_error + json option" where
  "get_permissions usr =
     (case usr of
        JNull \<Rightarrow> Inl TypeError
      | JObject kvs \<Rightarrow> Inr (map_of (rev kvs) ''permissions'')
      | _ \<Rightarrow> Inr None)"

text \<open>\<^verbatim>\<open>s.includes(p)\<close> on strings: \<^verbatim>\<open>p\<close> occurs in \<^verbatim>\<open>s\<close>.\<close>

fun str_includes :: "string \<Rightarrow> string \<Rightarrow> bool" where
  "str_includes [] p = (p = [])"
| "str_includes (c # cs) p = (take (length p) (c # cs) = p \<or> str_includes cs p)"

text \<open>
  \<^verbatim>\<open>x.includes(p)\<close> for a string \<^verbatim>\<open>p\<close>: membership when \<^verbatim>\<open>x\<close> is an array (only a string
  element equals a string), occurrence when \<^verbatim>\<open>x\<close> is a string, and a \<^verbatim>\<open>TypeError\<close> when
  \<^verbatim>\<open>x\<close> is \<^verbatim>\<open>undefined\<close>, \<^verbatim>\<open>null\<close> or a value without that method.
\<close>

definition js_includes :: "json option \<Rightarrow> string \<Rightarrow> js_error + bool" where
  "js_includes x p =
     (case x of
        Some (JArray xs) \<Rightarrow> Inr (JString p \<in> set xs)
      | Some (JString s) \<Rightarrow> Inr (str_includes s p)
      | _ \<Rightarrow> Inl TypeError)"

text \<open>
  \<^verbatim>\<open>xs.every(f)\<close>: stops at the first element on which \<^verbatim>\<open>f\<close> is false, and an
  exception raised by \<^verbatim>\<open>f\<close> escapes.
\<close>

fun every :: "('a \<Rightarrow> js_error + bool) \<Rightarrow> 'a list \<Rightarrow> js_error + bool" where
  "every f [] = Inr True"
| "every f (x # xs) =
     (case f x of
        Inl e \<Rightarrow> Inl e
      | Inr b \<Rightarrow> if b then every f xs else Inr False)"

text \<open>\<^verbatim>\<open>res.status(code).json(v)\<close>.\<close>

definition status_json :: "nat \<Rightarrow> json \<Rightarrow> response" where
  "status_json code v = \<lparr>status = code, body = Json v\<rparr>"

section \<open>The libraries the server calls\<close>

text \<open>
  \<^verbatim>\<open>jsonwebtoken\<close> and \<^verbatim>\<open>bcryptjs\<close> are not part of the program; the handlers take them as
  parameters. \<^verbatim>\<open>jwt.sign(payload, key, {expiresIn})\<close> reads the clock (milliseconds here);
  \<^verbatim>\<open>jwt.verify(token, key, callback)\<close> reads it too and hands the callback an error or the
  decoded payload, any JSON value. The token passed to it may be \<^verbatim>\<open>undefined\<close>.
\<close>

datatype jwt_error = JsonWebTokenError | TokenExpiredError | NotBeforeError

record jwt_lib =
  jwt_sign :: "json \<Rightarrow> string \<Rightarrow> string \<Rightarrow> nat \<Rightarrow> string"
  jwt_verify :: "string option \<Rightarrow> string \<Rightarrow> nat \<Rightarrow> jwt_error + json"

text \<open>
  \<^verbatim>\<open>bcrypt.hashSync(password, rounds)\<close> draws a salt; the salt is its third argument here.
\<close>

record bcrypt_lib =
  hashSync :: "string \<Rightarrow> nat \<Rightarrow> string \<Rightarrow> string"
  compareSync :: "string \<Rightarrow> string \<Rightarrow> bool"

section \<open>Module constants\<close>

text \<open>\<^verbatim>\<open>const SECRET_KEY = process.env.SECRET_KEY || 'playboy'\<close>, evaluated when the module loads.\<close>

definition SECRET_KEY :: "string option \<Rightarrow> string" where
  "SECRET_KEY env = (if truthy env then the env else ''playboy'')"

text \<open>The two sample users; each hash is computed once, with its own salt.\<close>

definition users :: "bcrypt_lib \<Rightarrow> string \<times> string \<Rightarrow> user list" where
  "users bc salts =
     [\<lparr>email = ''andrei@gmail.com'', password = hashSync bc ''12345'' 5 (fst salts),
       role = ''ADMIN'', permissions = [''WRITE'', ''READ'']\<rparr>,
      \<lparr>email = ''vasea@gmail.com'', password = hashSync bc ''12345'' 5 (snd salts),
       role = ''READER'', permissions = [''READ'']\<rparr>]"

section \<open>POST /login\<close>

definition post_login ::
  "jwt_lib \<Rightarrow> bcrypt_lib \<Rightarrow> string \<Rightarrow> user list \<Rightarrow> nat \<Rightarrow> request \<Rightarrow> response" where
  "post_login jw bc key us now req =
     (if truthy (req_body req ''email'') \<and> truthy (req_body req ''password'') then
        (case find (\<lambda>u. email u = the (req_body req ''email'')) us of
           Some u \<Rightarrow>
             if compareSync bc (the (req_body req ''password'')) (password u) then
               status_json 200 (JObject [(''token'',
                 JString (jwt_sign jw
                   (JObject [(''email'', JString (email u)), (''role'', JString (role u)),
                             (''permissions'', JArray (map JString (permissions u)))])
                   key ''1m'' now))])
             else status_json 401 (JObject [(''message'', JString ''Invalid email or password'')])
         | None \<Rightarrow>
             status_json 401 (JObject [(''message'', JString ''Invalid email or password'')]))
      else status_json 400 (JObject [(''message'', JString ''Email and password are required'')]))"

section \<open>The authorization middleware\<close>

text \<open>
  \<^verbatim>\<open>permissionsRequired.every(permission => user.permissions.includes(permission))\<close>, which
  the callback given to \<^verbatim>\<open>jwt.verify\<close> evaluates on the decoded payload as it is.
\<close>

definition has_permissions :: "json \<Rightarrow> string list \<Rightarrow> js_error + bool" where
  "has_permissions usr permissionsRequired =
     every (\<lambda>permission.
              case get_permissions usr of
                Inl e \<Rightarrow> Inl e
              | Inr ps \<Rightarrow> js_includes ps permission) permissionsRequired"

text \<open>
  The callback runs inside the call of the middleware, so an exception it raises escapes
  the middleware.
\<close>

definition authenticateJWT ::
  "jwt_lib \<Rightarrow> string \<Rightarrow> string list \<Rightarrow> nat \<Rightarrow> request \<Rightarrow> outcome" where
  "authenticateJWT jw key permissionsRequired now req =
     (if truthy (headers_authorization req) then
        (let token = at_index (str_split CHR '' '' (the (headers_authorization req))) 1 in
         case jwt_verify jw token key now of
           Inl err \<Rightarrow> Respond (sendStatus 403)
         | Inr usr \<Rightarrow>
             (case has_permissions usr permissionsRequired of
                Inl e \<Rightarrow> Throw e
              | Inr ok \<Rightarrow>
                  if ok then Next (req\<lparr>req_user := Some usr\<rparr>)
                  else Respond (sendStatus 403)))
      else Respond (sendStatus 401))"

section \<open>GET /entities\<close>

text \<open>
  \<^verbatim>\<open>Number(s)\<close> of a query string value. The fragment modelled is the one whose values are
  exact integers: the empty string (zero) and an optional sign followed by one to
  fifteen decimal digits. \<open>None\<close> stands for every other string; what \<^verbatim>\<open>Number\<close> makes
  of those (\<^verbatim>\<open>NaN\<close>, fractions, exponents, other radixes) is not modelled.
\<close>

definition is_digit :: "char \<Rightarrow> bool" where
  "is_digit c = (c \<in> set ''0123456789'')"

definition digits_value :: "string \<Rightarrow> nat" where
  "digits_value ds = foldl (\<lambda>a c. 10 * a + (of_char c - 48)) 0 ds"

definition unsigned_Number :: "string \<Rightarrow> int option" where
  "unsigned_Number ds =
     (if ds \<noteq> [] \<and> list_all is_digit ds \<and> length ds \<le> 15
      then Some (int (digits_value ds)) else None)"

definition Number_of_string :: "string \<Rightarrow> int option" where
  "Number_of_string s =
     (case s of
        [] \<Rightarrow> Some 0
      | c # ds \<Rightarrow>
          if c = CHR ''-'' then map_option uminus (unsigned_Number ds)
          else if c = CHR ''+'' then unsigned_Number ds
          else unsigned_Number s)"

text \<open>
  A destructured query parameter with a numeric default, passed to \<^verbatim>\<open>Number\<close>:
  \<^verbatim>\<open>const { skip = 0 } = req.query; Number(skip)\<close>.
\<close>

definition Number_param :: "string option \<Rightarrow> int \<Rightarrow> int option" where
  "Number_param v dflt = (case v of None \<Rightarrow> Some dflt | Some s \<Rightarrow> Number_of_string s)"

text \<open>
  \<^verbatim>\<open>xs.slice(start, stop)\<close> on integers: a negative bound counts from the end, and both
  bounds are clamped to the array.
\<close>

definition slice :: "'a list \<Rightarrow> int \<Rightarrow> int \<Rightarrow> 'a list" where
  "slice xs start stop =
     (let len = int (length xs);
          k = (if start < 0 then max (len + start) 0 else min start len);
          final = (if stop < 0 then max (len + stop) 0 else min stop len)
      in take (nat (final - k)) (drop (nat k) xs))"

text \<open>\<^verbatim>\<open>Array.from({ length: 100 }, (_, i) => ({ id: i, name: `Entity ${i}` }))\<close>.\<close>

definition entity :: "nat \<Rightarrow> json" where
  "entity i = JObject [(''id'', JNumber (int i)), (''name'', JString (''Entity '' @ String_of_nat i))]"

definition entities :: "json list" where
  "entities = map entity [0..<100]"

definition get_entities :: "request \<Rightarrow> response option" where
  "get_entities req =
     (case (Number_param (req_query req ''skip'') 0, Number_param (req_query req ''limit'') 10) of
        (Some skip, Some limit) \<Rightarrow>
          Some (status_json 200 (JArray (slice entities skip (skip + limit))))
      | _ \<Rightarrow> None)"

text \<open>\<^verbatim>\<open>app.get('/entities', authenticateJWT(['READ']), handler)\<close>.\<close>

definition get_entities_route :: "jwt_lib \<Rightarrow> string \<Rightarrow> nat \<Rightarrow> request \<Rightarrow> response option" where
  "get_entities_route jw key now req =
     (case authenticateJWT jw key [''READ''] now req of
        Respond r \<Rightarrow> Some r
      | Next req' \<Rightarrow> get_entities req'
      | Throw e \<Rightarrow> Some (uncaught e))"

section \<open>POST /entities\<close>

text \<open>The identifier of the created entity is \<^verbatim>\<open>Date.now()\<close>.\<close>

definition post_entities :: "nat \<Rightarrow> request \<Rightarrow> response" where
  "post_entities now req =
     (if truthy (req_body req ''name'') then
        status_json 201
          (JObject [(''id'', JNumber (int now)), (''name'', JString (the (req_body req ''name'')))])
      else status_json 400 (JObject [(''message'', JString ''Invalid input'')]))"

text \<open>\<^verbatim>\<open>app.post('/entities', authenticateJWT(['WRITE']), handler)\<close>.\<close>

definition post_entities_route :: "jwt_lib \<Rightarrow> string \<Rightarrow> nat \<Rightarrow> request \<Rightarrow> response" where
  "post_entities_route jw key now req =
     (case authenticateJWT jw key [''WRITE''] now req of
        Respond r \<Rightarrow> r
      | Next req' \<Rightarrow> post_entities now req'
      | Throw e \<Rightarrow> uncaught e)"

section \<open>Reference instances of the libraries\<close>

text \<open>
  To run the handlers on concrete requests the libraries need instances. The tokens of
  the instance below are symbolic and carry payloads of the shape that login signs:
  five fields separated by dots (email, role, permissions, issue time and expiry time in
  seconds) followed by a tag over the key and those fields. Strings are written with two
  letters per character, numbers in unary, so a token holds no dot inside a field and no
  space at all. A payload of another shape gets the empty token, which does not verify.
  \<open>sym_verify\<close> checks in the order of \<^verbatim>\<open>jsonwebtoken\<close>: shape, tag, expiry
  (\<^verbatim>\<open>now >= exp\<close> is expired).
\<close>

text \<open>The payload signed at login, and the payload decoded from its token.\<close>

definition signed_payload :: "string \<Rightarrow> string \<Rightarrow> string list \<Rightarrow> json" where
  "signed_payload e r ps =
     JObject [(''email'', JString e), (''role'', JString r),
              (''permissions'', JArray (map JString ps))]"

definition decoded_claims :: "string \<Rightarrow> string \<Rightarrow> string list \<Rightarrow> nat \<Rightarrow> nat \<Rightarrow> json" where
  "decoded_claims e r ps issued expiry =
     JObject [(''email'', JString e), (''role'', JString r),
              (''permissions'', JArray (map JString ps)),
              (''iat'', JNumber (int issued)), (''exp'', JNumber (int expiry))]"

fun strings_of :: "json list \<Rightarrow> string list option" where
  "strings_of [] = Some []"
| "strings_of (JString s # js) = map_option ((#) s) (strings_of js)"
| "strings_of (_ # js) = None"

definition login_shape :: "json \<Rightarrow> (string \<times> string \<times> string list) option" where
  "login_shape p =
     (case p of
        JObject [(k1, JString e), (k2, JString r), (k3, JArray ps)] \<Rightarrow>
          if k1 = ''email'' \<and> k2 = ''role'' \<and> k3 = ''permissions''
          then map_option (\<lambda>xs. (e, r, xs)) (strings_of ps)
          else None
      | _ \<Rightarrow> None)"

definition enc_char :: "char \<Rightarrow> string" where
  "enc_char c = [char_of (97 + (of_char c :: nat) div 16), char_of (97 + (of_char c :: nat) mod 16)]"

definition enc_str :: "string \<Rightarrow> string" where
  "enc_str s = concat (map enc_char s)"

fun dec_str :: "string \<Rightarrow> string" where
  "dec_str (a # b # r) = char_of (16 * (of_char a - 97) + (of_char b - 97 :: nat)) # dec_str r"
| "dec_str _ = []"

definition enc_list :: "string list \<Rightarrow> string" where
  "enc_list ps = concat (map (\<lambda>p. CHR '','' # enc_str p) ps)"

definition dec_list :: "string \<Rightarrow> string list" where
  "dec_list s = map dec_str (tl (str_split CHR '','' s))"

definition unary :: "nat \<Rightarrow> string" where
  "unary n = replicate n CHR ''i''"

definition sym_tag :: "string \<Rightarrow> string \<Rightarrow> string" where
  "sym_tag key signed = enc_str (key @ signed)"

definition sym_text :: "string \<Rightarrow> string \<Rightarrow> string \<Rightarrow> string \<Rightarrow> string \<Rightarrow> string" where
  "sym_text e r ps ia ex = e @ ''.'' @ r @ ''.'' @ ps @ ''.'' @ ia @ ''.'' @ ex"

definition sym_sign :: "json \<Rightarrow> string \<Rightarrow> string \<Rightarrow> nat \<Rightarrow> string" where
  "sym_sign p key expiresIn now =
     (case login_shape p of
        None \<Rightarrow> []
      | Some (e, r, ps) \<Rightarrow>
          (let issued = now div 1000;
               expiry = issued + (if expiresIn = ''1m'' then 60 else 0);
               signed = sym_text (enc_str e) (enc_str r) (enc_list ps)
                          (unary issued) (unary expiry)
           in signed @ ''.'' @ sym_tag key signed))"

definition sym_verify :: "string option \<Rightarrow> string \<Rightarrow> nat \<Rightarrow> jwt_error + json" where
  "sym_verify token key now =
     (case token of
        None \<Rightarrow> Inl JsonWebTokenError
      | Some s \<Rightarrow>
          if s = [] then Inl JsonWebTokenError
          else (case str_split CHR ''.'' s of
                  [e, r, ps, ia, ex, tag] \<Rightarrow>
                    if tag \<noteq> sym_tag key (sym_text e r ps ia ex) then Inl JsonWebTokenError
                    else if length ex \<le> now div 1000 then Inl TokenExpiredError
                    else Inr (decoded_claims (dec_str e) (dec_str r) (dec_list ps)
                                (length ia) (length ex))
                | _ \<Rightarrow> Inl JsonWebTokenError))"

definition sym_jwt :: jwt_lib where
  "sym_jwt = \<lparr>jwt_sign = sym_sign, jwt_verify = sym_verify\<rparr>"

text \<open>
  A verifier that accepts one token, whatever the key and the time, and decodes it to the
  given payload: a token that somebody signed under the key with that payload.
\<close>

definition accepting_jwt :: "string \<Rightarrow> json \<Rightarrow> jwt_lib" where
  "accepting_jwt token decoded =
     \<lparr>jwt_sign = (\<lambda>p key expiresIn now. token),
      jwt_verify = (\<lambda>t key now. if t = Some token then Inr decoded else Inl JsonWebTokenError)\<rparr>"

text \<open>The instance of bcrypt keeps salt and password side by side.\<close>

definition plain_bcrypt :: bcrypt_lib where
  "plain_bcrypt =
     \<lparr>hashSync = (\<lambda>pw rounds salt. salt @ ''$'' @ pw),
      compareSync = (\<lambda>pw h. tl (dropWhile (\<lambda>c. c \<noteq> CHR ''$'') h) = pw)\<rparr>"

section \<open>What the handlers rely on in \<^verbatim>\<open>jsonwebtoken\<close>\<close>

text \<open>
  Within the lifetime of a token (\<^verbatim>\<open>expiresIn: '1m'\<close> is sixty seconds from \<^verbatim>\<open>iat\<close>, and
  a token is expired once the clock, in seconds, has reached \<^verbatim>\<open>exp\<close>), verifying under
  the signing key returns the signed payload with \<^verbatim>\<open>iat\<close> and \<^verbatim>\<open>exp\<close> added. Only
  payloads of the shape that login signs are concerned.
\<close>

definition jwt_roundtrip :: "jwt_lib \<Rightarrow> bool" where
  "jwt_roundtrip jw =
     (\<forall>e r ps key now now'. now' div 1000 < now div 1000 + 60 \<longrightarrow>
        jwt_verify jw (Some (jwt_sign jw (signed_payload e r ps) key ''1m'' now)) key now' =
          Inr (decoded_claims e r ps (now div 1000) (now div 1000 + 60)))"

text \<open>Tokens are base64url text and dots: they hold no space.\<close>

definition jwt_spaceless :: "jwt_lib \<Rightarrow> bool" where
  "jwt_spaceless jw = (\<forall>p key e now. CHR '' '' \<notin> set (jwt_sign jw p key e now))"

section \<open>Sample requests\<close>

definition bare_request :: request where
  "bare_request =
     \<lparr>headers_authorization = None, req_query = Map.empty, req_body = Map.empty,
      req_user = None\<rparr>"

definition bearer :: "string \<Rightarrow> request" where
  "bearer token = bare_request\<lparr>headers_authorization := Some (''Bearer '' @ token)\<rparr>"

definition andrei :: json where
  "andrei = signed_payload ''andrei@gmail.com'' ''ADMIN'' [''WRITE'', ''READ'']"

definition vasea :: json where
  "vasea = signed_payload ''vasea@gmail.com'' ''READER'' [''READ'']"

text \<open>The claims decoded from their tokens, when issued at time 0.\<close>

definition andrei_claims :: json where
  "andrei_claims = decoded_claims ''andrei@gmail.com'' ''ADMIN'' [''WRITE'', ''READ''] 0 60"

definition vasea_claims :: json where
  "vasea_claims = decoded_claims ''vasea@gmail.com'' ''READER'' [''READ''] 0 60"

definition login_request :: "string \<Rightarrow> string \<Rightarrow> request" where
  "login_request e p = bare_request\<lparr>req_body := [''email'' \<mapsto> e, ''password'' \<mapsto> p]\<rparr>"

definition entities_request :: "string \<Rightarrow> string \<Rightarrow> string \<Rightarrow> request" where
  "entities_request token skip limit =
     (bearer token)\<lparr>req_query := [''skip'' \<mapsto> skip, ''limit'' \<mapsto> limit]\<rparr>"

definition create_request :: "string \<Rightarrow> string \<Rightarrow> request" where
  "create_request token name = (bearer token)\<lparr>req_body := [''name'' \<mapsto> name]\<rparr>"

text \<open>The user list of a server whose bcrypt drew the salts \<^verbatim>\<open>salt1\<close> and \<^verbatim>\<open>salt2\<close>.\<close>

definition sample_users :: "user list" where
  "sample_users = users plain_bcrypt (''salt1'', ''salt2'')"

section \<open>Splitting strings\<close>

lemma str_split_append:
  "sep \<notin> set w \<Longrightarrow>
   str_split sep (w @ r) = (w @ hd (str_split sep r)) # tl (str_split sep r)"
proof (induction w)
  case Nil
  show ?case by (cases r) (auto split: list.splits)
next
  case (Cons c w)
  then show ?case by auto
qed

lemma str_split_no_sep: "sep \<notin> set w \<Longrightarrow> str_split sep w = [w]"
  using str_split_append [of sep w "[]"] by simp

lemma str_split_sep: "sep \<notin> set w \<Longrightarrow> str_split sep (w @ sep # r) = w # str_split sep r"
  using str_split_append [of sep w "sep # r"] by simp

lemma second_segment:
  "CHR '' '' \<notin> set w \<Longrightarrow>
   at_index (str_split CHR '' '' (w @ CHR '' '' # t)) (Suc 0) = Some (hd (str_split CHR '' '' t))"
  by (cases "str_split CHR '' '' t"; cases t)
     (auto simp: str_split_sep at_index_def split: list.splits if_splits)

lemma bearer_token:
  "CHR '' '' \<notin> set w \<Longrightarrow> CHR '' '' \<notin> set t \<Longrightarrow>
   at_index (str_split CHR '' '' (w @ CHR '' '' # t)) (Suc 0) = Some t"
  using second_segment [of w t] by (simp add: str_split_no_sep)

lemma single_word:
  "CHR '' '' \<notin> set w \<Longrightarrow> at_index (str_split CHR '' '' w) (Suc 0) = None"
  by (simp add: str_split_no_sep at_index_def)

section \<open>The reference tokens\<close>

lemma of_char_enc:
  assumes "c \<in> set (enc_char x)"
  shows "97 \<le> (of_char c :: nat) \<and> (of_char c :: nat) < 113"
proof -
  have lt: "(of_char x :: nat) < 256"
    by (metis of_char_mod_256 mod_less_divisor zero_less_numeral)
  then have "(of_char x :: nat) div 16 < 16" "(of_char x :: nat) mod 16 < 16" by arith+
  with assms show ?thesis by (auto simp: enc_char_def)
qed

lemma enc_str_range:
  "c \<in> set (enc_str s) \<Longrightarrow> 97 \<le> (of_char c :: nat) \<and> (of_char c :: nat) < 113"
  by (auto simp: enc_str_def dest: of_char_enc)

lemma enc_str_free: "CHR ''.'' \<notin> set (enc_str s)" "CHR '','' \<notin> set (enc_str s)" "CHR '' '' \<notin> set (enc_str s)"
  using enc_str_range [of "CHR ''.''" s] enc_str_range [of "CHR '',''" s] enc_str_range [of "CHR '' ''" s]
  by auto

lemma dec_enc_char: "dec_str (enc_char x @ r) = x # dec_str r"
proof -
  have lt: "(of_char x :: nat) < 256"
    by (metis of_char_mod_256 mod_less_divisor zero_less_numeral)
  then have "(of_char x :: nat) div 16 < 16" "(of_char x :: nat) mod 16 < 16" by arith+
  then show ?thesis by (simp add: enc_char_def)
qed

lemma dec_enc_str: "dec_str (enc_str s) = s"
  by (induction s) (simp_all add: enc_str_def dec_enc_char)

lemma enc_list_range:
  "c \<in> set (enc_list ps) \<Longrightarrow> c = CHR '','' \<or> (97 \<le> (of_char c :: nat) \<and> (of_char c :: nat) < 113)"
proof (induction ps)
  case Nil
  then show ?case by (simp add: enc_list_def)
next
  case (Cons p ps)
  have "enc_list (p # ps) = CHR '','' # (enc_str p @ enc_list ps)"
    by (simp add: enc_list_def)
  with Cons show ?case by (auto dest: enc_str_range)
qed

lemma enc_list_free: "CHR ''.'' \<notin> set (enc_list ps)" "CHR '' '' \<notin> set (enc_list ps)"
  using enc_list_range [of "CHR ''.''" ps] enc_list_range [of "CHR '' ''" ps] by auto

lemma split_enc_list: "str_split CHR '','' (enc_list ps) = [] # map enc_str ps"
proof (induction ps)
  case Nil
  show ?case by (simp add: enc_list_def)
next
  case (Cons p ps)
  have "enc_list (p # ps) = CHR '','' # (enc_str p @ enc_list ps)"
    by (simp add: enc_list_def)
  then show ?case
    using Cons str_split_append [of "CHR '',''" "enc_str p" "enc_list ps"]
    by (simp add: enc_str_free)
qed

lemma dec_enc_list: "dec_list (enc_list ps) = ps"
  by (simp add: dec_list_def split_enc_list dec_enc_str map_idI)

lemma unary_free: "CHR ''.'' \<notin> set (unary n)" "CHR '' '' \<notin> set (unary n)"
  by (auto simp: unary_def)

lemma length_unary: "length (unary n) = n"
  by (simp add: unary_def)

lemma split_sym_text:
  assumes "CHR ''.'' \<notin> set e" "CHR ''.'' \<notin> set r" "CHR ''.'' \<notin> set ps"
    "CHR ''.'' \<notin> set ia" "CHR ''.'' \<notin> set ex" "CHR ''.'' \<notin> set tag"
  shows "str_split CHR ''.'' (sym_text e r ps ia ex @ CHR ''.'' # tag) = [e, r, ps, ia, ex, tag]"
  using assms by (simp add: sym_text_def str_split_sep str_split_no_sep)

lemma strings_of_map: "strings_of (map JString ps) = Some ps"
  by (induction ps) simp_all

lemma login_shape_signed: "login_shape (signed_payload e r ps) = Some (e, r, ps)"
  by (simp add: login_shape_def signed_payload_def strings_of_map)

lemma sym_roundtrip:
  "sym_verify (Some (sym_sign (signed_payload e r ps) key ''1m'' now)) key now' =
     (if now' div 1000 < now div 1000 + 60
      then Inr (decoded_claims e r ps (now div 1000) (now div 1000 + 60))
      else Inl TokenExpiredError)"
  by (simp add: sym_verify_def sym_sign_def login_shape_signed Let_def split_sym_text
      enc_str_free enc_list_free unary_free sym_tag_def dec_enc_str dec_enc_list length_unary)

lemma enc_str_inj: "enc_str a = enc_str b \<Longrightarrow> a = b"
  by (metis dec_enc_str)

lemma sym_wrong_key:
  "key' \<noteq> key \<Longrightarrow>
   sym_verify (Some (sym_sign (signed_payload e r ps) key ''1m'' now)) key' now' =
     Inl JsonWebTokenError"
  by (auto simp: sym_verify_def sym_sign_def login_shape_signed Let_def split_sym_text
      enc_str_free enc_list_free unary_free sym_tag_def dest: enc_str_inj)

lemma sym_sign_no_space: "CHR '' '' \<notin> set (sym_sign p key e now)"
  by (cases "login_shape p")
     (auto simp: sym_sign_def Let_def sym_text_def sym_tag_def enc_str_free enc_list_free
        unary_free)

lemma sym_jwt_roundtrip: "jwt_roundtrip sym_jwt"
  by (simp add: jwt_roundtrip_def sym_jwt_def sym_roundtrip)

lemma sym_jwt_spaceless: "jwt_spaceless sym_jwt"
  by (simp add: jwt_spaceless_def sym_jwt_def sym_sign_no_space)

lemma bearer_header:
  "headers_authorization (bearer t) = Some (''Bearer '' @ t)" "''Bearer '' @ t \<noteq> []"
  by (simp_all add: bearer_def)

lemma bearer_sym_token:
  "at_index (str_split CHR '' '' (''Bearer '' @ sym_sign p key e now)) 1 = Some (sym_sign p key e now)"
  using bearer_token [of "''Bearer''" "sym_sign p key e now"] by (simp add: sym_sign_no_space)

section \<open>The middleware, case by case\<close>

lemma truthy_simps [simp]: "truthy None = False" "truthy (Some s) = (s \<noteq> [])"
  by (simp_all add: truthy_def)

lemma sendStatus_401: "sendStatus 401 = \<lparr>status = 401, body = Text ''Unauthorized''\<rparr>"
  by (simp add: sendStatus_def status_message_def)

lemma sendStatus_403: "sendStatus 403 = \<lparr>status = 403, body = Text ''Forbidden''\<rparr>"
  by (simp add: sendStatus_def status_message_def)

lemma auth_absent:
  "headers_authorization req = None \<or> headers_authorization req = Some [] \<Longrightarrow>
   authenticateJWT jw key perms now req = Respond \<lparr>status = 401, body = Text ''Unauthorized''\<rparr>"
  by (auto simp: authenticateJWT_def sendStatus_401)

lemma auth_present:
  "headers_authorization req = Some h \<Longrightarrow> h \<noteq> [] \<Longrightarrow>
   authenticateJWT jw key perms now req =
     (case jwt_verify jw (at_index (str_split CHR '' '' h) (Suc 0)) key now of
        Inl err \<Rightarrow> Respond \<lparr>status = 403, body = Text ''Forbidden''\<rparr>
      | Inr usr \<Rightarrow>
          (case has_permissions usr perms of
             Inl e \<Rightarrow> Throw e
           | Inr ok \<Rightarrow>
               if ok then Next (req\<lparr>req_user := Some usr\<rparr>)
               else Respond \<lparr>status = 403, body = Text ''Forbidden''\<rparr>))"
  by (auto simp: authenticateJWT_def sendStatus_403 Let_def split: sum.splits)

text \<open>
  On claims whose \<^verbatim>\<open>permissions\<close> is an array the test is membership of every required
  permission; on the claims decoded from a token of login it is the subset test on the
  user's permissions.
\<close>

lemma has_permissions_array:
  "get_permissions usr = Inr (Some (JArray xs)) \<Longrightarrow>
   has_permissions usr perms = Inr (JString ` set perms \<subseteq> set xs)"
  by (induction perms) (auto simp: has_permissions_def js_includes_def)

lemma get_permissions_decoded:
  "get_permissions (decoded_claims e r ps issued expiry) = Inr (Some (JArray (map JString ps)))"
  by (simp add: get_permissions_def decoded_claims_def)

lemma has_permissions_decoded:
  "has_permissions (decoded_claims e r ps issued expiry) perms = Inr (set perms \<subseteq> set ps)"
  using has_permissions_array [OF get_permissions_decoded, of e r ps issued expiry perms]
  by (auto simp: image_subset_iff)

text \<open>
  On claims without \<^verbatim>\<open>permissions\<close> a guard that requires something throws; on claims
  whose \<^verbatim>\<open>permissions\<close> is a string the test is occurrence in that string.
\<close>

lemma has_permissions_absent:
  "get_permissions usr = Inr None \<Longrightarrow> has_permissions usr (p # perms) = Inl TypeError"
  by (simp add: has_permissions_def js_includes_def)

lemma has_permissions_string:
  "has_permissions (JObject [(''permissions'', JString ''UNREADABLE'')]) [''READ''] = Inr True"
  by (simp add: has_permissions_def get_permissions_def js_includes_def)

lemma find_configured:
  "u \<in> set (users bc salts) \<Longrightarrow> find (\<lambda>x. email x = email u) (users bc salts) = Some u"
  by (auto simp: users_def)

lemma configured_email_nonempty: "u \<in> set (users bc salts) \<Longrightarrow> email u \<noteq> []"
  by (auto simp: users_def)

lemma bearer_any_token:
  "CHR '' '' \<notin> set t \<Longrightarrow> at_index (str_split CHR '' '' (''Bearer '' @ t)) (Suc 0) = Some t"
  using bearer_token [of "''Bearer''" t] by simp

lemma plain_compare:
  "CHR ''$'' \<notin> set salt \<Longrightarrow> compareSync plain_bcrypt p (hashSync plain_bcrypt q n salt) = (p = q)"
  by (induction salt) (auto simp: plain_bcrypt_def)

lemma take_drop_upt: "take n (drop k [0..<m]) = [k..<min (k + n) m]"
  by (rule nth_equalityI) auto

text \<open>
  For bounds that are not negative, the page is the run of entities from \<open>skip\<close> up to
  \<open>skip + limit\<close>, cut at 100.
\<close>

lemma slice_entities:
  assumes "0 \<le> skip" and "0 \<le> limit"
  shows "slice entities skip (skip + limit) = map entity [nat skip..<min (nat (skip + limit)) 100]"
proof -
  have len: "length entities = 100" by (simp add: entities_def)
  have "nat skip + nat (min (skip + limit) 100 - min skip 100) = nat (min (skip + limit) 100)
      \<or> 100 \<le> skip"
    using assms by (auto simp: min_def)
  then have "min (nat (min skip 100) + nat (min (skip + limit) 100 - min skip 100)) 100
        = min (nat (skip + limit)) 100
      \<and> (nat (min skip 100) = nat skip \<or> 100 \<le> nat skip)"
    using assms by (auto simp: min_def)
  then have "[nat (min skip 100)..<
        min (nat (min skip 100) + nat (min (skip + limit) 100 - min skip 100)) 100]
     = [nat skip..<min (nat (skip + limit)) 100]"
    by auto
  then show ?thesis
    using assms by (simp add: slice_def len Let_def entities_def take_map drop_map take_drop_upt)
qed

lemma entities_5_8:
  "slice entities 5 8 =
     [JObject [(''id'', JNumber 5), (''name'', JString ''Entity 5'')],
      JObject [(''id'', JNumber 6), (''name'', JString ''Entity 6'')],
      JObject [(''id'', JNumber 7), (''name'', JString ''Entity 7'')]]"
  by code_simp

lemma Number_5_3: "Number_of_string ''5'' = Some 5" "Number_of_string ''3'' = Some 3"
  by (simp_all add: Number_of_string_def unsigned_Number_def is_digit_def digits_value_def)

section \<open>Rejections by the middleware\<close>

text \<open>
  C1, as the code has it. A request whose \<^verbatim>\<open>Authorization\<close> header is missing or empty is
  answered 401 and \<^verbatim>\<open>next\<close> is not called. A header that is present and not empty is
  never answered 401, whatever its shape: the middleware calls \<^verbatim>\<open>next\<close>, answers 403, or
  (on a verified payload whose permissions it cannot test) lets a \<^verbatim>\<open>TypeError\<close> escape.
  In particular a header of a single word has no second segment, the verifier is handed
  \<^verbatim>\<open>undefined\<close>, and when it reports an error the answer is 403.
\<close>

theorem header_check:
  "(if headers_authorization req = None \<or> headers_authorization req = Some []
    then authenticateJWT jw key perms now req =
           Respond \<lparr>status = 401, body = Text ''Unauthorized''\<rparr>
    else (\<exists>u. authenticateJWT jw key perms now req = Next (req\<lparr>req_user := Some u\<rparr>))
         \<or> authenticateJWT jw key perms now req =
             Respond \<lparr>status = 403, body = Text ''Forbidden''\<rparr>
         \<or> authenticateJWT jw key perms now req = Throw TypeError)
   \<and> (\<forall>w e. headers_authorization req = Some w \<and> w \<noteq> [] \<and> CHR '' '' \<notin> set w
          \<and> jwt_verify jw None key now = Inl e
        \<longrightarrow> authenticateJWT jw key perms now req =
              Respond \<lparr>status = 403, body = Text ''Forbidden''\<rparr>)"
proof (intro conjI allI impI)
  show "if headers_authorization req = None \<or> headers_authorization req = Some []
    then authenticateJWT jw key perms now req =
           Respond \<lparr>status = 401, body = Text ''Unauthorized''\<rparr>
    else (\<exists>u. authenticateJWT jw key perms now req = Next (req\<lparr>req_user := Some u\<rparr>))
         \<or> authenticateJWT jw key perms now req =
             Respond \<lparr>status = 403, body = Text ''Forbidden''\<rparr>
         \<or> authenticateJWT jw key perms now req = Throw TypeError"
  proof (cases "headers_authorization req = None \<or> headers_authorization req = Some []")
    case True
    then show ?thesis using auth_absent [of req jw key perms now] by simp
  next
    case False
    then obtain h where h: "headers_authorization req = Some h" "h \<noteq> []" by auto
    show ?thesis using False auth_present [OF h, of jw key perms now]
      by (auto split: sum.splits if_splits intro: js_error.exhaust)
  qed
next
  fix w e
  assume a: "headers_authorization req = Some w \<and> w \<noteq> [] \<and> CHR '' '' \<notin> set w
          \<and> jwt_verify jw None key now = Inl e"
  then show "authenticateJWT jw key perms now req =
              Respond \<lparr>status = 403, body = Text ''Forbidden''\<rparr>"
    using auth_present [of req w jw key perms now] by (simp add: single_word)
qed

text \<open>
  With the reference tokens: no header gives 401, the one-word header \<^verbatim>\<open>Token\<close> gives 403.
\<close>

theorem header_check_witness:
  "authenticateJWT sym_jwt ''playboy'' [''READ''] 0 bare_request
     = Respond \<lparr>status = 401, body = Text ''Unauthorized''\<rparr>
   \<and> authenticateJWT sym_jwt ''playboy'' [''READ''] 0
       (bare_request\<lparr>headers_authorization := Some ''Token''\<rparr>)
     = Respond \<lparr>status = 403, body = Text ''Forbidden''\<rparr>"
  using header_check [of bare_request sym_jwt "''playboy''" "[''READ'']" 0]
    header_check [of "bare_request\<lparr>headers_authorization := Some ''Token''\<rparr>" sym_jwt
      "''playboy''" "[''READ'']" 0]
  by (simp add: bare_request_def sym_jwt_def sym_verify_def)

text \<open>
  The header \<^verbatim>\<open>Bearer\<close>, a scheme word without a token, is answered 403 and not 401: the
  verifier rejects the missing token.
\<close>

theorem single_word_header_counterexample:
  "authenticateJWT sym_jwt ''playboy'' [''READ''] 0
     (bare_request\<lparr>headers_authorization := Some ''Bearer''\<rparr>)
   = Respond \<lparr>status = 403, body = Text ''Forbidden''\<rparr>"
  by (simp add: authenticateJWT_def bare_request_def at_index_def sym_jwt_def sym_verify_def
      sendStatus_403)

text \<open>
  C2. When the header is present and the verifier reports an error for the token taken
  from it, whichever error it is (malformed, bad signature, expired), the middleware
  answers 403, and so do both protected routes: their handlers do not run.
\<close>

theorem invalid_token_forbidden:
  assumes "headers_authorization req = Some h" and "h \<noteq> []"
    and "jwt_verify jw (at_index (str_split CHR '' '' h) 1) key now = Inl e"
  shows "authenticateJWT jw key perms now req = Respond \<lparr>status = 403, body = Text ''Forbidden''\<rparr>
    \<and> get_entities_route jw key now req = Some \<lparr>status = 403, body = Text ''Forbidden''\<rparr>
    \<and> post_entities_route jw key now req = \<lparr>status = 403, body = Text ''Forbidden''\<rparr>"
  using assms
  by (simp add: auth_present get_entities_route_def post_entities_route_def)

text \<open>
  Three bearers on the reference tokens, each answered 403: a token signed with the right
  key at time 0 and presented sixty seconds later (expired, on both routes), a token
  signed with another key, and the text \<^verbatim>\<open>garbage\<close>.
\<close>

theorem invalid_token_forbidden_witness:
  "authenticateJWT sym_jwt ''playboy'' [''READ''] 60000 (bearer (sym_sign vasea ''playboy'' ''1m'' 0))
     = Respond \<lparr>status = 403, body = Text ''Forbidden''\<rparr>
   \<and> get_entities_route sym_jwt ''playboy'' 60000 (bearer (sym_sign vasea ''playboy'' ''1m'' 0))
     = Some \<lparr>status = 403, body = Text ''Forbidden''\<rparr>
   \<and> post_entities_route sym_jwt ''playboy'' 60000 (bearer (sym_sign vasea ''playboy'' ''1m'' 0))
     = \<lparr>status = 403, body = Text ''Forbidden''\<rparr>
   \<and> authenticateJWT sym_jwt ''playboy'' [''READ''] 1000 (bearer (sym_sign andrei ''other'' ''1m'' 0))
     = Respond \<lparr>status = 403, body = Text ''Forbidden''\<rparr>
   \<and> authenticateJWT sym_jwt ''playboy'' [''READ''] 1000 (bearer ''garbage'')
     = Respond \<lparr>status = 403, body = Text ''Forbidden''\<rparr>"
proof -
  have expired: "jwt_verify sym_jwt
          (at_index (str_split CHR '' '' (''Bearer '' @ sym_sign vasea ''playboy'' ''1m'' 0)) 1)
          ''playboy'' 60000 = Inl TokenExpiredError"
    by (simp only: bearer_sym_token) (simp add: sym_jwt_def sym_roundtrip vasea_def)
  have forged: "jwt_verify sym_jwt
          (at_index (str_split CHR '' '' (''Bearer '' @ sym_sign andrei ''other'' ''1m'' 0)) 1)
          ''playboy'' 1000 = Inl JsonWebTokenError"
    by (simp only: bearer_sym_token) (simp add: sym_jwt_def sym_wrong_key andrei_def)
  have malformed: "jwt_verify sym_jwt
          (at_index (str_split CHR '' '' (''Bearer '' @ ''garbage'')) 1)
          ''playboy'' 1000 = Inl JsonWebTokenError"
    by (simp add: at_index_def sym_jwt_def sym_verify_def)
  from invalid_token_forbidden [OF bearer_header expired]
    invalid_token_forbidden [OF bearer_header forged]
    invalid_token_forbidden [OF bearer_header malformed]
  show ?thesis by blast
qed

text \<open>
  C3, as the code has it. When the verifier accepts the token and the decoded claims
  carry a \<^verbatim>\<open>permissions\<close> array, \<^verbatim>\<open>next\<close> is called, on the request with the decoded claims
  attached, exactly when every required permission is an element of that array (a
  subset test, not an equality test); otherwise the answer is 403.
\<close>

theorem permission_subset_check:
  assumes "headers_authorization req = Some h" and "h \<noteq> []"
    and "jwt_verify jw (at_index (str_split CHR '' '' h) 1) key now = Inr u"
    and "get_permissions u = Inr (Some (JArray xs))"
  shows "authenticateJWT jw key perms now req =
     (if JString ` set perms \<subseteq> set xs
      then Next (req\<lparr>req_user := Some u\<rparr>)
      else Respond \<lparr>status = 403, body = Text ''Forbidden''\<rparr>)"
  using assms by (simp add: auth_present has_permissions_array)

text \<open>
  The token of the administrator carries WRITE and READ and passes the guard that
  requires READ alone; the token of the reader does not pass the guard that requires
  WRITE.
\<close>

theorem permission_subset_check_witness:
  "authenticateJWT sym_jwt ''playboy'' [''READ''] 1000 (bearer (sym_sign andrei ''playboy'' ''1m'' 0))
     = Next (bearer (sym_sign andrei ''playboy'' ''1m'' 0)\<lparr>req_user := Some andrei_claims\<rparr>)
   \<and> authenticateJWT sym_jwt ''playboy'' [''WRITE''] 1000 (bearer (sym_sign vasea ''playboy'' ''1m'' 0))
     = Respond \<lparr>status = 403, body = Text ''Forbidden''\<rparr>"
proof -
  have a: "jwt_verify sym_jwt
          (at_index (str_split CHR '' '' (''Bearer '' @ sym_sign andrei ''playboy'' ''1m'' 0)) 1)
          ''playboy'' 1000 = Inr andrei_claims"
    by (simp only: bearer_sym_token)
       (simp add: sym_jwt_def sym_roundtrip andrei_def andrei_claims_def)
  have v: "jwt_verify sym_jwt
          (at_index (str_split CHR '' '' (''Bearer '' @ sym_sign vasea ''playboy'' ''1m'' 0)) 1)
          ''playboy'' 1000 = Inr vasea_claims"
    by (simp only: bearer_sym_token)
       (simp add: sym_jwt_def sym_roundtrip vasea_def vasea_claims_def)
  have pa: "get_permissions andrei_claims = Inr (Some (JArray [JString ''WRITE'', JString ''READ'']))"
    and pv: "get_permissions vasea_claims = Inr (Some (JArray [JString ''READ'']))"
    by (simp_all add: andrei_claims_def vasea_claims_def get_permissions_decoded)
  show ?thesis
    using permission_subset_check [OF bearer_header a pa, of "[''READ'']"]
      permission_subset_check [OF bearer_header v pv, of "[''WRITE'']"]
    by simp
qed

text \<open>
  A token that verifies to claims without \<^verbatim>\<open>permissions\<close>, on the guard that requires
  READ: the request is not passed on, and the answer is not 403 either. The callback
  throws, and \<^verbatim>\<open>GET /entities\<close> is answered 500.
\<close>

theorem claims_without_permissions_counterexample:
  "authenticateJWT (accepting_jwt ''t0'' (JObject [(''email'', JString ''mallory@gmail.com'')]))
       ''playboy'' [''READ''] 0 (bearer ''t0'')
     = Throw TypeError
   \<and> get_entities_route (accepting_jwt ''t0'' (JObject [(''email'', JString ''mallory@gmail.com'')]))
       ''playboy'' 0 (bearer ''t0'')
     = Some \<lparr>status = 500, body = ErrorPage TypeError\<rparr>"
  by (simp add: get_entities_route_def authenticateJWT_def bearer_def bare_request_def at_index_def
      accepting_jwt_def has_permissions_def get_permissions_def js_includes_def uncaught_def)

section \<open>Login\<close>

text \<open>
  C4, as the code has it. A login whose email or password is absent or empty is answered
  400 with a message. When both are non-empty strings: an email that no configured user
  has, and a password that does not compare to the hash of the user who has it, are
  both answered 401 with one and the same message; a password that compares is answered
  200 with the token signed for that user.
\<close>

theorem login_responses:
  "(req_body req ''email'' = None \<or> req_body req ''email'' = Some []
      \<or> req_body req ''password'' = None \<or> req_body req ''password'' = Some []
    \<longrightarrow> post_login jw bc key (users bc salts) now req =
          \<lparr>status = 400,
           body = Json (JObject [(''message'', JString ''Email and password are required'')])\<rparr>)
   \<and> (\<forall>e p. req_body req ''email'' = Some e \<and> e \<noteq> []
            \<and> req_body req ''password'' = Some p \<and> p \<noteq> [] \<longrightarrow>
         ((\<forall>u \<in> set (users bc salts). email u \<noteq> e) \<longrightarrow>
            post_login jw bc key (users bc salts) now req =
              \<lparr>status = 401,
               body = Json (JObject [(''message'', JString ''Invalid email or password'')])\<rparr>)
         \<and> (\<forall>u \<in> set (users bc salts). email u = e \<longrightarrow>
            post_login jw bc key (users bc salts) now req =
              (if compareSync bc p (password u)
               then \<lparr>status = 200,
                     body = Json (JObject [(''token'', JString (jwt_sign jw
                       (JObject [(''email'', JString (email u)), (''role'', JString (role u)),
                                 (''permissions'', JArray (map JString (permissions u)))])
                       key ''1m'' now))])\<rparr>
               else \<lparr>status = 401,
                     body = Json (JObject
                       [(''message'', JString ''Invalid email or password'')])\<rparr>)))"
  by (auto simp: post_login_def status_json_def users_def)

text \<open>
  On the sample users: no body gives 400, an unknown email and a wrong password give the
  same 401, the right password gives 200 and the token of the administrator.
\<close>

theorem login_responses_witness:
  "post_login sym_jwt plain_bcrypt ''playboy'' sample_users 0 bare_request
     = \<lparr>status = 400,
        body = Json (JObject [(''message'', JString ''Email and password are required'')])\<rparr>
   \<and> post_login sym_jwt plain_bcrypt ''playboy'' sample_users 0
       (login_request ''nobody@gmail.com'' ''12345'')
     = \<lparr>status = 401,
        body = Json (JObject [(''message'', JString ''Invalid email or password'')])\<rparr>
   \<and> post_login sym_jwt plain_bcrypt ''playboy'' sample_users 0
       (login_request ''andrei@gmail.com'' ''54321'')
     = \<lparr>status = 401,
        body = Json (JObject [(''message'', JString ''Invalid email or password'')])\<rparr>
   \<and> post_login sym_jwt plain_bcrypt ''playboy'' sample_users 0
       (login_request ''andrei@gmail.com'' ''12345'')
     = \<lparr>status = 200,
        body = Json (JObject [(''token'', JString (sym_sign andrei ''playboy'' ''1m'' 0))])\<rparr>"
proof -
  let ?a = "\<lparr>email = ''andrei@gmail.com'',
             password = hashSync plain_bcrypt ''12345'' 5 ''salt1'',
             role = ''ADMIN'', permissions = [''WRITE'', ''READ'']\<rparr>"
  have mem: "?a \<in> set (users plain_bcrypt (''salt1'', ''salt2''))"
    by (simp add: users_def)
  have ok: "compareSync plain_bcrypt ''12345'' (password ?a)"
    and ko: "\<not> compareSync plain_bcrypt ''54321'' (password ?a)"
    by (simp_all add: plain_compare)
  have none: "\<forall>u \<in> set (users plain_bcrypt (''salt1'', ''salt2'')). email u \<noteq> ''nobody@gmail.com''"
    by (simp add: users_def)
  show ?thesis
    using login_responses [of bare_request sym_jwt plain_bcrypt "''playboy''" "(''salt1'', ''salt2'')" 0]
      login_responses [of "login_request ''nobody@gmail.com'' ''12345''" sym_jwt plain_bcrypt
        "''playboy''" "(''salt1'', ''salt2'')" 0]
      login_responses [of "login_request ''andrei@gmail.com'' ''54321''" sym_jwt plain_bcrypt
        "''playboy''" "(''salt1'', ''salt2'')" 0]
      login_responses [of "login_request ''andrei@gmail.com'' ''12345''" sym_jwt plain_bcrypt
        "''playboy''" "(''salt1'', ''salt2'')" 0]
      mem ok ko none
    by (simp add: sample_users_def login_request_def bare_request_def sym_jwt_def andrei_def
        signed_payload_def)
qed

text \<open>
  A login whose email is present as the empty string, with a password, matches no
  configured user and yet is answered 400, not 401.
\<close>

theorem empty_email_counterexample:
  "post_login sym_jwt plain_bcrypt ''playboy'' sample_users 0 (login_request [] ''12345'')
   = \<lparr>status = 400,
      body = Json (JObject [(''message'', JString ''Email and password are required'')])\<rparr>"
  by (simp add: post_login_def status_json_def login_request_def bare_request_def)

text \<open>
  C5. For every configured user, a login with a password that compares to the stored
  hash returns the token signed from that user's email, role and permissions under
  \<^verbatim>\<open>SECRET_KEY\<close>. Provided the library returns what was signed while the token lives,
  verifying that token under \<^verbatim>\<open>SECRET_KEY\<close> at any moment of its lifetime yields claims with
  exactly that email, role and permission list, and the middleware attaches those claims
  to the request. The middleware never reads the user list: the claims are the copy made
  at login.
\<close>

theorem issued_claims_roundtrip:
  fixes u :: user and jw :: jwt_lib and env :: "string option" and now :: nat
  defines "tok \<equiv> jwt_sign jw
                    (JObject [(''email'', JString (email u)), (''role'', JString (role u)),
                              (''permissions'', JArray (map JString (permissions u)))])
                    (SECRET_KEY env) ''1m'' now"
    and "c \<equiv> JObject [(''email'', JString (email u)), (''role'', JString (role u)),
                       (''permissions'', JArray (map JString (permissions u))),
                       (''iat'', JNumber (int (now div 1000))),
                       (''exp'', JNumber (int (now div 1000 + 60)))]"
  assumes "jwt_roundtrip jw" and "jwt_spaceless jw"
    and "u \<in> set (users bc salts)"
    and "req_body req ''email'' = Some (email u)"
    and "req_body req ''password'' = Some p" and "p \<noteq> []"
    and "compareSync bc p (password u)"
    and "now' div 1000 < now div 1000 + 60"
  shows "post_login jw bc (SECRET_KEY env) (users bc salts) now req =
           \<lparr>status = 200, body = Json (JObject [(''token'', JString tok)])\<rparr>
    \<and> jwt_verify jw (Some tok) (SECRET_KEY env) now' = Inr c
    \<and> authenticateJWT jw (SECRET_KEY env) perms now'
          (r\<lparr>headers_authorization := Some (''Bearer '' @ tok)\<rparr>) =
        (if set perms \<subseteq> set (permissions u)
         then Next (r\<lparr>headers_authorization := Some (''Bearer '' @ tok), req_user := Some c\<rparr>)
         else Respond \<lparr>status = 403, body = Text ''Forbidden''\<rparr>)"
proof -
  have tok: "tok = jwt_sign jw (signed_payload (email u) (role u) (permissions u))
      (SECRET_KEY env) ''1m'' now"
    and c: "c = decoded_claims (email u) (role u) (permissions u)
      (now div 1000) (now div 1000 + 60)"
    by (simp_all add: tok_def c_def signed_payload_def decoded_claims_def)
  have login: "post_login jw bc (SECRET_KEY env) (users bc salts) now req =
           \<lparr>status = 200, body = Json (JObject [(''token'', JString tok)])\<rparr>"
    using assms(3-) find_configured [of u bc salts] configured_email_nonempty [of u bc salts]
    by (simp add: post_login_def status_json_def tok_def)
  have verify: "jwt_verify jw (Some tok) (SECRET_KEY env) now' = Inr c"
    using \<open>jwt_roundtrip jw\<close> \<open>now' div 1000 < now div 1000 + 60\<close>
    by (simp add: jwt_roundtrip_def tok c)
  have "CHR '' '' \<notin> set tok"
    using \<open>jwt_spaceless jw\<close> by (simp add: jwt_spaceless_def tok)
  then have seg: "at_index (str_split CHR '' '' (''Bearer '' @ tok)) (Suc 0) = Some tok"
    by (rule bearer_any_token)
  have perm: "has_permissions c perms = Inr (set perms \<subseteq> set (permissions u))"
    by (simp only: c has_permissions_decoded)
  have "authenticateJWT jw (SECRET_KEY env) perms now'
          (r\<lparr>headers_authorization := Some (''Bearer '' @ tok)\<rparr>) =
        (if set perms \<subseteq> set (permissions u)
         then Next (r\<lparr>headers_authorization := Some (''Bearer '' @ tok), req_user := Some c\<rparr>)
         else Respond \<lparr>status = 403, body = Text ''Forbidden''\<rparr>)"
    using auth_present [of "r\<lparr>headers_authorization := Some (''Bearer '' @ tok)\<rparr>"
        "''Bearer '' @ tok" jw "SECRET_KEY env" perms now'] seg verify perm
    by simp
  with login verify show ?thesis by simp
qed

text \<open>
  The reader logs in at time 0 on a server without configured secret; the token still
  verifies at 59.999 seconds and yields the reader's email, role and permissions.
\<close>

theorem issued_claims_roundtrip_witness:
  "post_login sym_jwt plain_bcrypt (SECRET_KEY None) (users plain_bcrypt (''salt1'', ''salt2'')) 0
       (login_request ''vasea@gmail.com'' ''12345'')
     = \<lparr>status = 200,
        body = Json (JObject [(''token'', JString (sym_sign vasea (SECRET_KEY None) ''1m'' 0))])\<rparr>
   \<and> jwt_verify sym_jwt (Some (sym_sign vasea (SECRET_KEY None) ''1m'' 0)) (SECRET_KEY None) 59999
     = Inr (JObject [(''email'', JString ''vasea@gmail.com''), (''role'', JString ''READER''),
                     (''permissions'', JArray [JString ''READ'']),
                     (''iat'', JNumber 0), (''exp'', JNumber 60)])
   \<and> authenticateJWT sym_jwt (SECRET_KEY None) [''READ''] 59999
        (bare_request\<lparr>headers_authorization :=
           Some (''Bearer '' @ sym_sign vasea (SECRET_KEY None) ''1m'' 0)\<rparr>)
     = Next (bare_request\<lparr>headers_authorization :=
           Some (''Bearer '' @ sym_sign vasea (SECRET_KEY None) ''1m'' 0),
         req_user := Some vasea_claims\<rparr>)"
proof -
  let ?v = "\<lparr>email = ''vasea@gmail.com'',
             password = hashSync plain_bcrypt ''12345'' 5 ''salt2'',
             role = ''READER'', permissions = [''READ'']\<rparr>"
  have mem: "?v \<in> set (users plain_bcrypt (''salt1'', ''salt2''))"
    by (simp add: users_def)
  have em: "req_body (login_request ''vasea@gmail.com'' ''12345'') ''email'' = Some (email ?v)"
    and pw: "req_body (login_request ''vasea@gmail.com'' ''12345'') ''password'' = Some ''12345''"
    by (simp_all add: login_request_def bare_request_def)
  have ok: "compareSync plain_bcrypt ''12345'' (password ?v)"
    by (simp add: plain_compare)
  have ne: "''12345'' \<noteq> []" by simp
  have life: "(59999::nat) div 1000 < 0 div 1000 + 60" by simp
  show ?thesis
    using issued_claims_roundtrip [where env = None and perms = "[''READ'']" and r = bare_request,
      OF sym_jwt_roundtrip sym_jwt_spaceless mem em pw ne ok life]
    by (simp add: vasea_def vasea_claims_def signed_payload_def decoded_claims_def sym_jwt_def)
qed

section \<open>Bodies of the rejections\<close>

text \<open>
  C6, as the code has it. A rejection by the middleware is sent with \<^verbatim>\<open>res.sendStatus\<close>,
  which writes the standard message of the status code as a text body: the response is
  401 with the text \<^verbatim>\<open>Unauthorized\<close> or 403 with the text \<^verbatim>\<open>Forbidden\<close>. The body is
  fixed by the status code alone; it is no JSON message and does not tell an invalid
  token from a missing permission.
\<close>

theorem rejection_bodies:
  "authenticateJWT jw key perms now req = Respond r \<Longrightarrow>
   r = \<lparr>status = 401, body = Text ''Unauthorized''\<rparr>
   \<or> r = \<lparr>status = 403, body = Text ''Forbidden''\<rparr>"
proof (cases "headers_authorization req = None \<or> headers_authorization req = Some []")
  case True
  assume "authenticateJWT jw key perms now req = Respond r"
  with True show ?thesis using auth_absent [of req jw key perms now] by simp
next
  case False
  assume resp: "authenticateJWT jw key perms now req = Respond r"
  from False obtain h where h: "headers_authorization req = Some h" "h \<noteq> []" by auto
  show ?thesis using resp auth_present [OF h, of jw key perms now]
    by (auto split: sum.splits if_splits)
qed

text \<open>
  The request without header on the guard that requires WRITE.
\<close>

theorem rejection_bodies_witness:
  "authenticateJWT sym_jwt ''playboy'' [''WRITE''] 0 bare_request = Respond (sendStatus 401)
   \<and> (sendStatus 401 = \<lparr>status = 401, body = Text ''Unauthorized''\<rparr>
      \<or> sendStatus 401 = \<lparr>status = 403, body = Text ''Forbidden''\<rparr>)"
proof -
  have "authenticateJWT sym_jwt ''playboy'' [''WRITE''] 0 bare_request = Respond (sendStatus 401)"
    by (simp add: authenticateJWT_def bare_request_def)
  with rejection_bodies [OF this] show ?thesis by simp
qed

text \<open>
  \<^verbatim>\<open>GET /entities\<close> without header: the 401 response has the body \<^verbatim>\<open>Unauthorized\<close>, not
  an empty one.
\<close>

theorem unauthorized_body_counterexample:
  "get_entities_route sym_jwt ''playboy'' 0 bare_request
     = Some \<lparr>status = 401, body = Text ''Unauthorized''\<rparr>
   \<and> body \<lparr>status = 401, body = Text ''Unauthorized''\<rparr> \<noteq> Text []"
  by (simp add: get_entities_route_def authenticateJWT_def bare_request_def sendStatus_401)

section \<open>The signing secret\<close>

text \<open>
  C7. \<^verbatim>\<open>SECRET_KEY\<close> is computed from the environment when the module loads; the
  handlers receive its value. With no secret in the environment (or an empty one) it is
  the literal \<^verbatim>\<open>playboy\<close>; a non-empty secret is taken as it is.
\<close>

theorem secret_fallback:
  "SECRET_KEY None = ''playboy'' \<and> SECRET_KEY (Some []) = ''playboy''
   \<and> SECRET_KEY (Some (c # cs)) = c # cs"
  by (simp add: SECRET_KEY_def)

section \<open>Pagination\<close>

text \<open>
  C8. \<^verbatim>\<open>GET /entities?skip=5&limit=3\<close> with a header whose token verifies to claims
  whose permissions include READ (\<^verbatim>\<open>user.permissions.includes('READ')\<close> is true) is answered
  200 with the entities 5, 6 and 7.
\<close>

theorem entities_skip_5_limit_3:
  assumes "headers_authorization req = Some h" and "h \<noteq> []"
    and "jwt_verify jw (at_index (str_split CHR '' '' h) 1) key now = Inr u"
    and "has_permissions u [''READ''] = Inr True"
    and "req_query req ''skip'' = Some ''5''" and "req_query req ''limit'' = Some ''3''"
  shows "get_entities_route jw key now req =
     Some \<lparr>status = 200,
           body = Json (JArray
             [JObject [(''id'', JNumber 5), (''name'', JString ''Entity 5'')],
              JObject [(''id'', JNumber 6), (''name'', JString ''Entity 6'')],
              JObject [(''id'', JNumber 7), (''name'', JString ''Entity 7'')]])\<rparr>"
proof -
  have "authenticateJWT jw key [''READ''] now req = Next (req\<lparr>req_user := Some u\<rparr>)"
    using assms(1-4) by (simp add: auth_present)
  moreover have "get_entities (req\<lparr>req_user := Some u\<rparr>) =
     Some (status_json 200 (JArray (slice entities 5 8)))"
    using assms(5,6) by (simp add: get_entities_def Number_param_def Number_5_3)
  ultimately show ?thesis
    by (simp add: get_entities_route_def entities_5_8 status_json_def)
qed

text \<open>
  The reader's token, thirty seconds after it was issued.
\<close>

theorem entities_skip_5_limit_3_witness:
  "get_entities_route sym_jwt ''playboy'' 30000
     (entities_request (sym_sign vasea ''playboy'' ''1m'' 0) ''5'' ''3'') =
     Some \<lparr>status = 200,
           body = Json (JArray
             [JObject [(''id'', JNumber 5), (''name'', JString ''Entity 5'')],
              JObject [(''id'', JNumber 6), (''name'', JString ''Entity 6'')],
              JObject [(''id'', JNumber 7), (''name'', JString ''Entity 7'')]])\<rparr>"
proof -
  let ?req = "entities_request (sym_sign vasea ''playboy'' ''1m'' 0) ''5'' ''3''"
  have h: "headers_authorization ?req = Some (''Bearer '' @ sym_sign vasea ''playboy'' ''1m'' 0)"
    "''Bearer '' @ sym_sign vasea ''playboy'' ''1m'' 0 \<noteq> []"
    by (simp_all add: entities_request_def bearer_def)
  have v: "jwt_verify sym_jwt
          (at_index (str_split CHR '' '' (''Bearer '' @ sym_sign vasea ''playboy'' ''1m'' 0)) 1)
          ''playboy'' 30000 = Inr vasea_claims"
    by (simp only: bearer_sym_token)
       (simp add: sym_jwt_def sym_roundtrip vasea_def vasea_claims_def)
  have q: "req_query ?req ''skip'' = Some ''5''" "req_query ?req ''limit'' = Some ''3''"
    by (simp_all add: entities_request_def)
  have p: "has_permissions vasea_claims [''READ''] = Inr True"
    by (simp add: vasea_claims_def has_permissions_decoded)
  from entities_skip_5_limit_3 [OF h v p q] show ?thesis .
qed

section \<open>The scheme word\<close>

text \<open>
  C9. The middleware does not look at the first word of the header. For any word \<open>w\<close>
  without a space, the outcome on the header \<open>w\<close>, space, \<open>t\<close> is decided by the
  verification of the first space-separated segment of \<open>t\<close> alone, by the same formula
  for \<^verbatim>\<open>Bearer\<close> as for any other word. So when \<open>t\<close> is a token that verifies to claims
  with the required permissions, the request is passed on with those claims.
\<close>

theorem scheme_word_ignored:
  assumes "CHR '' '' \<notin> set w"
  shows "authenticateJWT jw key perms now (req\<lparr>headers_authorization := Some (w @ '' '' @ t)\<rparr>) =
      (case jwt_verify jw (Some (hd (str_split CHR '' '' t))) key now of
         Inl e \<Rightarrow> Respond \<lparr>status = 403, body = Text ''Forbidden''\<rparr>
       | Inr u \<Rightarrow>
           (case has_permissions u perms of
              Inl e \<Rightarrow> Throw e
            | Inr ok \<Rightarrow>
                if ok
                then Next (req\<lparr>headers_authorization := Some (w @ '' '' @ t),
                                req_user := Some u\<rparr>)
                else Respond \<lparr>status = 403, body = Text ''Forbidden''\<rparr>))
    \<and> (CHR '' '' \<notin> set t \<and> jwt_verify jw (Some t) key now = Inr c
         \<and> has_permissions c perms = Inr True \<longrightarrow>
       authenticateJWT jw key perms now (req\<lparr>headers_authorization := Some (w @ '' '' @ t)\<rparr>) =
         Next (req\<lparr>headers_authorization := Some (w @ '' '' @ t), req_user := Some c\<rparr>))"
proof -
  let ?req = "req\<lparr>headers_authorization := Some (w @ '' '' @ t)\<rparr>"
  have h: "headers_authorization ?req = Some (w @ '' '' @ t)" "w @ '' '' @ t \<noteq> []"
    by simp_all
  have seg: "at_index (str_split CHR '' '' (w @ '' '' @ t)) (Suc 0) =
      Some (hd (str_split CHR '' '' t))"
    using second_segment [OF assms, of t] by simp
  have first: "authenticateJWT jw key perms now ?req =
      (case jwt_verify jw (Some (hd (str_split CHR '' '' t))) key now of
         Inl e \<Rightarrow> Respond \<lparr>status = 403, body = Text ''Forbidden''\<rparr>
       | Inr u \<Rightarrow>
           (case has_permissions u perms of
              Inl e \<Rightarrow> Throw e
            | Inr ok \<Rightarrow>
                if ok then Next (?req\<lparr>req_user := Some u\<rparr>)
                else Respond \<lparr>status = 403, body = Text ''Forbidden''\<rparr>))"
    using auth_present [OF h, of jw key perms now] seg by simp
  have "CHR '' '' \<notin> set t \<Longrightarrow> hd (str_split CHR '' '' t) = t"
    by (simp add: str_split_no_sep)
  with first show ?thesis by simp
qed

text \<open>
  The reader's token behind the scheme word \<^verbatim>\<open>Basic\<close> passes the guard that requires
  READ.
\<close>

theorem scheme_word_ignored_witness:
  "authenticateJWT sym_jwt ''playboy'' [''READ''] 1000
     (bare_request\<lparr>headers_authorization := Some (''Basic'' @ '' '' @ sym_sign vasea ''playboy'' ''1m'' 0)\<rparr>)
   = Next (bare_request\<lparr>headers_authorization :=
         Some (''Basic'' @ '' '' @ sym_sign vasea ''playboy'' ''1m'' 0),
       req_user := Some vasea_claims\<rparr>)"
proof -
  have w: "CHR '' '' \<notin> set ''Basic''" by simp
  have v: "jwt_verify sym_jwt (Some (sym_sign vasea ''playboy'' ''1m'' 0)) ''playboy'' 1000 =
      Inr vasea_claims"
    by (simp add: sym_jwt_def sym_roundtrip vasea_def vasea_claims_def)
  have ns: "CHR '' '' \<notin> set (sym_sign vasea ''playboy'' ''1m'' 0)"
    by (rule sym_sign_no_space)
  have sub: "has_permissions vasea_claims [''READ''] = Inr True"
    by (simp add: vasea_claims_def has_permissions_decoded)
  show ?thesis
    using conjunct2 [OF scheme_word_ignored [OF w, where jw = sym_jwt and key = "''playboy''"
        and perms = "[''READ'']" and now = 1000 and req = bare_request
        and t = "sym_sign vasea ''playboy'' ''1m'' 0" and c = vasea_claims]] ns v sub
    by blast
qed

section \<open>Empty fields\<close>

text \<open>
  C10. The presence checks are truthiness checks. A login whose email or password is
  the empty string is answered 400, as one whose field is absent. A \<^verbatim>\<open>POST /entities\<close>
  that passes the WRITE guard and whose name is the empty string is answered 400, as
  one whose name is absent.
\<close>

theorem empty_fields_rejected:
  "((req_body req ''email'' = Some [] \<or> req_body req ''password'' = Some []) \<longrightarrow>
      post_login jw bc key us now req =
        \<lparr>status = 400,
         body = Json (JObject [(''message'', JString ''Email and password are required'')])\<rparr>)
   \<and> ((req_body req ''email'' = None \<or> req_body req ''password'' = None) \<longrightarrow>
      post_login jw bc key us now req =
        \<lparr>status = 400,
         body = Json (JObject [(''message'', JString ''Email and password are required'')])\<rparr>)
   \<and> (headers_authorization req = Some h \<and> h \<noteq> []
        \<and> jwt_verify jw (at_index (str_split CHR '' '' h) 1) key now = Inr u
        \<and> has_permissions u [''WRITE''] = Inr True
        \<and> (req_body req ''name'' = Some [] \<or> req_body req ''name'' = None) \<longrightarrow>
      post_entities_route jw key now req =
        \<lparr>status = 400, body = Json (JObject [(''message'', JString ''Invalid input'')])\<rparr>)"
proof (intro conjI impI)
  assume "req_body req ''email'' = Some [] \<or> req_body req ''password'' = Some []"
  then show "post_login jw bc key us now req =
        \<lparr>status = 400,
         body = Json (JObject [(''message'', JString ''Email and password are required'')])\<rparr>"
    by (auto simp: post_login_def status_json_def)
next
  assume "req_body req ''email'' = None \<or> req_body req ''password'' = None"
  then show "post_login jw bc key us now req =
        \<lparr>status = 400,
         body = Json (JObject [(''message'', JString ''Email and password are required'')])\<rparr>"
    by (auto simp: post_login_def status_json_def)
next
  assume a: "headers_authorization req = Some h \<and> h \<noteq> []
        \<and> jwt_verify jw (at_index (str_split CHR '' '' h) 1) key now = Inr u
        \<and> has_permissions u [''WRITE''] = Inr True
        \<and> (req_body req ''name'' = Some [] \<or> req_body req ''name'' = None)"
  then have "authenticateJWT jw key [''WRITE''] now req = Next (req\<lparr>req_user := Some u\<rparr>)"
    by (simp add: auth_present)
  with a show "post_entities_route jw key now req =
        \<lparr>status = 400, body = Json (JObject [(''message'', JString ''Invalid input'')])\<rparr>"
    by (auto simp: post_entities_route_def post_entities_def status_json_def)
qed

text \<open>
  A login with an empty password, a login without body, and a creation with an empty
  name by the administrator.
\<close>

theorem empty_fields_rejected_witness:
  "post_login sym_jwt plain_bcrypt ''playboy'' sample_users 0 (login_request ''andrei@gmail.com'' [])
     = \<lparr>status = 400,
        body = Json (JObject [(''message'', JString ''Email and password are required'')])\<rparr>
   \<and> post_login sym_jwt plain_bcrypt ''playboy'' sample_users 0 bare_request
     = \<lparr>status = 400,
        body = Json (JObject [(''message'', JString ''Email and password are required'')])\<rparr>
   \<and> post_entities_route sym_jwt ''playboy'' 1000
        (create_request (sym_sign andrei ''playboy'' ''1m'' 0) [])
     = \<lparr>status = 400, body = Json (JObject [(''message'', JString ''Invalid input'')])\<rparr>"
proof -
  let ?req = "create_request (sym_sign andrei ''playboy'' ''1m'' 0) []"
  have v: "jwt_verify sym_jwt
          (at_index (str_split CHR '' '' (''Bearer '' @ sym_sign andrei ''playboy'' ''1m'' 0)) 1)
          ''playboy'' 1000 = Inr andrei_claims"
    by (simp only: bearer_sym_token)
       (simp add: sym_jwt_def sym_roundtrip andrei_def andrei_claims_def)
  have p: "has_permissions andrei_claims [''WRITE''] = Inr True"
    by (simp add: andrei_claims_def has_permissions_decoded)
  show ?thesis
    using empty_fields_rejected [where req = "login_request ''andrei@gmail.com'' []"
        and jw = sym_jwt and bc = plain_bcrypt and key = "''playboy''" and us = sample_users
        and now = 0]
      empty_fields_rejected [where req = bare_request and jw = sym_jwt and bc = plain_bcrypt
        and key = "''playboy''" and us = sample_users and now = 0]
      empty_fields_rejected [where req = ?req
        and h = "''Bearer '' @ sym_sign andrei ''playboy'' ''1m'' 0" and jw = sym_jwt
        and key = "''playboy''" and now = 1000 and u = andrei_claims] v p
    by (simp add: login_request_def bare_request_def create_request_def bearer_def)
qed

end
